theory Spec2Isabelle
  imports Main
begin

section \<open>JavaScript values and string primitives\<close>

text \<open>
  The Knowledge Hub component (\<^verbatim>\<open>frontend/components/KnowledgeHub.tsx\<close>) receives
  backend records typed \<^verbatim>\<open>any\<close>. A field of such a record is modelled as a JSON
  scalar; an absent field reads as \<^verbatim>\<open>undefined\<close>. Numbers are restricted to
  integers (backend ids are database keys). Strings are lists of characters with codes
  below 256, read as UTF-16 code units, so \<open>length\<close> is the \<^verbatim>\<open>.length\<close> of the
  source for such strings.
\<close>

datatype jsval = JUndefined | JNull | JBool bool | JNum int | JStr string

datatype js_error = TypeError | Error string

fun truthy :: "jsval \<Rightarrow> bool" where
  "truthy JUndefined = False"
| "truthy JNull = False"
| "truthy (JBool b) = b"
| "truthy (JNum n) = (n \<noteq> 0)"
| "truthy (JStr s) = (s \<noteq> [])"

text \<open>\<^verbatim>\<open>!v\<close>.\<close>

definition falsy :: "jsval \<Rightarrow> bool" where
  "falsy v = (\<not> truthy v)"

text \<open>\<^verbatim>\<open>a || b\<close>: the left operand when it is truthy, the right one otherwise.\<close>

definition js_or :: "jsval \<Rightarrow> jsval \<Rightarrow> jsval" where
  "js_or a b = (if truthy a then a else b)"

text \<open>\<^verbatim>\<open>typeof v === 'string'\<close>.\<close>

definition isString :: "jsval \<Rightarrow> bool" where
  "isString v = (case v of JStr u \<Rightarrow> True | _ \<Rightarrow> False)"

text \<open>Decimal digits of a natural number, as \<^verbatim>\<open>Number.prototype.toString\<close> prints an
  integer (of magnitude below \<open>10^21\<close>, where JavaScript switches to exponents).\<close>

definition digitChar :: "nat \<Rightarrow> char" where
  "digitChar d = ''0123456789'' ! (d mod 10)"

fun digits :: "nat \<Rightarrow> string" where
  "digits n = (if n < 10 then [digitChar n] else digits (n div 10) @ [digitChar (n mod 10)])"

declare digits.simps [simp del]

definition intToString :: "int \<Rightarrow> string" where
  "intToString i = (if i < 0 then CHR ''-'' # digits (nat (- i)) else digits (nat i))"

text \<open>\<^verbatim>\<open>v.toString()\<close>: a method call, so it throws a TypeError on
  \<^verbatim>\<open>undefined\<close> and \<^verbatim>\<open>null\<close>.\<close>

fun toStringMethod :: "jsval \<Rightarrow> js_error + string" where
  "toStringMethod JUndefined = Inl TypeError"
| "toStringMethod JNull = Inl TypeError"
| "toStringMethod (JBool b) = Inr (if b then ''true'' else ''false'')"
| "toStringMethod (JNum n) = Inr (intToString n)"
| "toStringMethod (JStr s) = Inr s"

text \<open>\<^verbatim>\<open>String(v)\<close>, the conversion of template literals and of \<^verbatim>\<open>new Error(v)\<close>.\<close>

fun toStringConv :: "jsval \<Rightarrow> string" where
  "toStringConv JUndefined = ''undefined''"
| "toStringConv JNull = ''null''"
| "toStringConv (JBool b) = (if b then ''true'' else ''false'')"
| "toStringConv (JNum n) = intToString n"
| "toStringConv (JStr s) = s"

text \<open>\<^verbatim>\<open>startsWith\<close>, \<^verbatim>\<open>endsWith\<close> and \<^verbatim>\<open>includes\<close> of strings (the last one named
  \<open>includesStr\<close> here).\<close>

definition startsWith :: "string \<Rightarrow> string \<Rightarrow> bool" where
  "startsWith s p = (take (length p) s = p)"

definition endsWith :: "string \<Rightarrow> string \<Rightarrow> bool" where
  "endsWith s p = startsWith (rev s) (rev p)"

fun includesStr :: "string \<Rightarrow> string \<Rightarrow> bool" where
  "includesStr [] p = (p = [])"
| "includesStr (c # cs) p = (startsWith (c # cs) p \<or> includesStr cs p)"

text \<open>White space of \<^verbatim>\<open>String.prototype.trim\<close> among the code units below 256:
  tab, line feed, vertical tab, form feed, carriage return, space and no-break space.\<close>

definition isWhiteSpace :: "char \<Rightarrow> bool" where
  "isWhiteSpace c = (let n = (of_char c :: nat) in (9 \<le> n \<and> n \<le> 13) \<or> n = 32 \<or> n = 160)"

definition trim :: "string \<Rightarrow> string" where
  "trim s = rev (dropWhile isWhiteSpace (rev (dropWhile isWhiteSpace s)))"

definition lowerChar :: "char \<Rightarrow> char" where
  "lowerChar c =
     (case map_of (zip ''ABCDEFGHIJKLMNOPQRSTUVWXYZ'' ''abcdefghijklmnopqrstuvwxyz'') c of
        Some d \<Rightarrow> d
      | None \<Rightarrow> c)"

text \<open>\<^verbatim>\<open>url.match(/\.(jpg|jpeg|png|gif|webp)$/i)\<close> is truthy exactly when the string
  ends, ignoring the case of ASCII letters, with one of the five extensions.\<close>

definition matchImageExt :: "string \<Rightarrow> bool" where
  "matchImageExt u =
     (let l = map lowerChar u in
      endsWith l ''.jpg'' \<or> endsWith l ''.jpeg'' \<or> endsWith l ''.png'' \<or>
      endsWith l ''.gif'' \<or> endsWith l ''.webp'')"

fun join :: "string \<Rightarrow> string list \<Rightarrow> string" where
  "join sep [] = []"
| "join sep [x] = x"
| "join sep (x # y # ys) = x @ sep @ join sep (y # ys)"

section \<open>Notes and their classification\<close>

text \<open>The backend record, as \<^verbatim>\<open>convertBackendNoteToFrontend\<close> reads it.\<close>

record rawNote =
  raw_id :: jsval
  raw_title :: jsval
  raw_file_url :: jsval
  raw_summary :: jsval
  raw_extracted_content :: jsval
  raw_created_at :: jsval

text \<open>The \<^verbatim>\<open>type\<close> of the \<^verbatim>\<open>Note\<close> interface:
  \<^verbatim>\<open>'pdf' | 'docx' | 'image' | 'url' | 'other'\<close>, where \<^verbatim>\<open>'other'\<close> is the
  category of a text note.\<close>

datatype noteType = Pdf | Docx | Image | Url | Other

record Note =
  note_id :: string
  note_title :: jsval
  note_type :: noteType
  note_url :: jsval
  note_tags :: "string list"
  note_uploadDate :: jsval
  note_rating :: int
  note_size :: string
  note_uploader_name :: string
  note_uploader_avatarUrl :: string
  note_content :: jsval
  note_summary :: jsval

definition getFileTypeFromUrl :: "string \<Rightarrow> noteType" where
  "getFileTypeFromUrl url =
     (if url = [] then Other
      else if includesStr url ''.pdf'' then Pdf
      else if includesStr url ''.docx'' \<or> includesStr url ''.doc'' then Docx
      else if matchImageExt url then Image
      else if startsWith url ''http'' then Url
      else Other)"

text \<open>The first half of \<^verbatim>\<open>convertBackendNoteToFrontend\<close>: the value of
  \<^verbatim>\<open>fileUrl = note.file_url || ''\<close> and the \<^verbatim>\<open>noteType\<close> computed from it.
  In the first branch the source assigns \<^verbatim>\<open>'other'\<close> when \<^verbatim>\<open>note.summary\<close> is
  truthy and leaves the initial \<^verbatim>\<open>'other'\<close> when it is not. A truthy
  \<^verbatim>\<open>file_url\<close> that is not a string has no \<^verbatim>\<open>startsWith\<close> method, and calling it
  throws.\<close>

definition fileUrlOf :: "rawNote \<Rightarrow> jsval" where
  "fileUrlOf note = js_or (raw_file_url note) (JStr [])"

definition noteTypeOf :: "rawNote \<Rightarrow> js_error + noteType" where
  "noteTypeOf note =
     (let fileUrl = fileUrlOf note in
      if falsy fileUrl \<or> fileUrl = JStr [] \<or>
         fileUrl = JStr ''None'' \<or> fileUrl = JNull
      then Inr Other
      else (case fileUrl of
              JStr u \<Rightarrow>
                if startsWith u ''http://'' \<or> startsWith u ''https://'' then
                  (if includesStr u ''.pdf'' then Inr Pdf
                   else if includesStr u ''.docx'' \<or> includesStr u ''.doc'' then Inr Docx
                   else if matchImageExt u then Inr Image
                   else if \<not> includesStr u ''/uploads/'' \<and> \<not> includesStr u ''cloudinary'' \<and>
                           \<not> includesStr u ''res.cloudinary.com''
                   then Inr Url
                   else Inr (getFileTypeFromUrl u))
                else Inr (getFileTypeFromUrl u)
            | _ \<Rightarrow> Inl TypeError))"

text \<open>The second half: the object literal. \<open>now\<close> is the value of
  \<^verbatim>\<open>new Date().toISOString()\<close> at the call.\<close>

definition convertBackendNoteToFrontend :: "string \<Rightarrow> rawNote \<Rightarrow> js_error + Note" where
  "convertBackendNoteToFrontend now note =
     (case noteTypeOf note of
        Inl e \<Rightarrow> Inl e
      | Inr noteType \<Rightarrow>
          (case toStringMethod (raw_id note) of
             Inl e \<Rightarrow> Inl e
           | Inr i \<Rightarrow>
               (let fileUrl = fileUrlOf note in
                Inr \<lparr> note_id = i,
                      note_title = raw_title note,
                      note_type = noteType,
                      note_url =
                        (if truthy fileUrl \<and> fileUrl \<noteq> JStr ''None'' \<and> fileUrl \<noteq> JNull
                         then fileUrl
                         else if noteType = Url \<and> truthy (raw_summary note)
                              then raw_summary note
                              else JStr ''#''),
                      note_tags = [],
                      note_uploadDate = js_or (raw_created_at note) (JStr now),
                      note_rating = 0,
                      note_size = [],
                      note_uploader_name = ''You'',
                      note_uploader_avatarUrl = [],
                      note_content =
                        js_or (js_or (raw_extracted_content note) (raw_summary note)) (JStr []),
                      note_summary = js_or (raw_summary note) (JStr []) \<rparr>)))"

text \<open>\<^verbatim>\<open>backendNotes.map((note) => convertBackendNoteToFrontend(note))\<close>: the records in
  order; the first conversion that throws ends the whole map.\<close>

fun convertAll :: "string \<Rightarrow> rawNote list \<Rightarrow> js_error + Note list" where
  "convertAll now [] = Inr []"
| "convertAll now (r # rs) =
     (case convertBackendNoteToFrontend now r of
        Inl e \<Rightarrow> Inl e
      | Inr n \<Rightarrow> (case convertAll now rs of Inl e \<Rightarrow> Inl e | Inr ns \<Rightarrow> Inr (n # ns)))"

section \<open>The services\<close>

text \<open>
  A service function awaits one HTTP request. It is modelled as a function of the outcome
  of that request: \<open>Inr\<close> the body of a successful response, \<open>Inl\<close> the error axios
  rejects with. Of that error the services read \<^verbatim>\<open>message\<close>, \<^verbatim>\<open>response\<close>
  (present when the server answered with a failure status; its \<^verbatim>\<open>data\<close> is taken to
  be an object, of which \<^verbatim>\<open>detail\<close> and \<^verbatim>\<open>message\<close> are read) and
  \<^verbatim>\<open>request\<close>. Writes to the console are not modelled: they are not shown to the
  user.
\<close>

record errorData =
  data_detail :: jsval
  data_message :: jsval

record axiosError =
  ax_message :: string
  ax_response :: "errorData option"
  ax_request :: bool

text \<open>\<^verbatim>\<open>err.message\<close>. The services below throw \<^verbatim>\<open>Error\<close> objects only; the
  text an engine gives a TypeError is not modelled, and \<open>''TypeError''\<close> stands for it.\<close>

fun message :: "js_error \<Rightarrow> string" where
  "message (Error m) = m"
| "message TypeError = ''TypeError''"

text \<open>\<^verbatim>\<open>a || b\<close> on strings.\<close>

definition str_or :: "string \<Rightarrow> string \<Rightarrow> string" where
  "str_or a b = (if a \<noteq> [] then a else b)"

text \<open>\<^verbatim>\<open>services/api.ts\<close>: each function rethrows a failure status as an
  \<^verbatim>\<open>Error\<close> carrying the server's detail, and any other failure as it is.\<close>

definition apiError :: "string \<Rightarrow> axiosError \<Rightarrow> js_error" where
  "apiError fallback e =
     (case ax_response e of
        Some d \<Rightarrow> Error (toStringConv (js_or (data_detail d) (JStr fallback)))
      | None \<Rightarrow> Error (ax_message e))"

definition generateSummary :: "axiosError + string \<Rightarrow> js_error + string" where
  "generateSummary outcome =
     (case outcome of
        Inr summary \<Rightarrow> Inr summary
      | Inl e \<Rightarrow> Inl (apiError ''Failed to generate summary'' e))"

definition getNotes :: "axiosError + rawNote list \<Rightarrow> js_error + rawNote list" where
  "getNotes outcome =
     (case outcome of
        Inr rs \<Rightarrow> Inr rs
      | Inl e \<Rightarrow> Inl (apiError ''Failed to fetch notes'' e))"

definition searchResources :: "axiosError + rawNote list \<Rightarrow> js_error + rawNote list" where
  "searchResources outcome =
     (case outcome of
        Inr rs \<Rightarrow> Inr rs
      | Inl e \<Rightarrow> Inl (apiError ''Failed to search resources'' e))"

text \<open>\<^verbatim>\<open>services/geminiService.ts\<close>: \<^verbatim>\<open>summarizeText\<close> awaits
  \<^verbatim>\<open>generateSummary\<close> and replaces whatever it throws.\<close>

definition summarizeText :: "js_error + string \<Rightarrow> js_error + string" where
  "summarizeText outcome =
     (case outcome of
        Inr summary \<Rightarrow> Inr summary
      | Inl error \<Rightarrow> Inl (Error ''Failed to get summary. Please try again.''))"

text \<open>\<^verbatim>\<open>services/uploadService.ts\<close>. The fields of the upload response are strings;
  a field the server left out is the empty string, which every reader below treats as
  it treats \<^verbatim>\<open>undefined\<close>.\<close>

record UploadResponse =
  resp_id :: string
  resp_url :: string
  resp_title :: string
  resp_type :: string
  resp_tags :: "string list"
  resp_size :: string
  resp_uploadDate :: string
  resp_message :: string
  resp_content :: string

definition uploadFile :: "axiosError + UploadResponse \<Rightarrow> js_error + UploadResponse" where
  "uploadFile outcome =
     (case outcome of
        Inr response \<Rightarrow> Inr response
      | Inl e \<Rightarrow>
          (case ax_response e of
             Some d \<Rightarrow>
               Inl (Error (toStringConv
                 (js_or (js_or (data_detail d) (data_message d)) (JStr ''Upload failed''))))
           | None \<Rightarrow>
               if ax_request e
               then Inl (Error (''Network error: Could not connect to server. '' @
                                ''Please make sure the backend is running on http://localhost:8000''))
               else Inl (Error (''Upload failed: '' @ ax_message e))))"

section \<open>The state of the Knowledge Hub\<close>

datatype draftType = TEXT | LINK | FILE

record jsFile =
  file_name :: string
  file_size :: nat

record draft =
  draft_title :: string
  draft_content :: string
  draft_type :: draftType
  draft_subject :: string
  draft_tags :: "string list"
  draft_file :: "jsFile option"
  draft_is_public :: bool

text \<open>The calls of \<^verbatim>\<open>toast.error\<close> and \<^verbatim>\<open>toast.success\<close>, the notifications
  the user sees.\<close>

datatype toast = ToastError string | ToastSuccess string

text \<open>The \<^verbatim>\<open>useState\<close> variables of the component, and the toasts raised so far.\<close>

record hub =
  selectedNote :: "Note option"
  "notes" :: "Note list"
  isLoading :: bool
  isSummaryModalOpen :: bool
  summary :: string
  isGeneratingSummary :: bool
  summaryError :: "string option"
  searchQuery :: string
  isSearching :: bool
  isUploadModalOpen :: bool
  isSubmitting :: bool
  newNote :: draft
  toasts :: "toast list"

definition emptyDraft :: draft where
  "emptyDraft =
     \<lparr> draft_title = [], draft_content = [], draft_type = TEXT, draft_subject = [],
       draft_tags = [], draft_file = None, draft_is_public = False \<rparr>"

definition initialHub :: hub where
  "initialHub =
     \<lparr> selectedNote = None, notes = [], isLoading = True, isSummaryModalOpen = False,
       summary = [], isGeneratingSummary = False, summaryError = None, searchQuery = [],
       isSearching = False, isUploadModalOpen = False, isSubmitting = False,
       newNote = emptyDraft, toasts = [] \<rparr>"

definition toastError :: "string \<Rightarrow> hub \<Rightarrow> hub" where
  "toastError m s = s\<lparr>toasts := toasts s @ [ToastError m]\<rparr>"

definition toastSuccess :: "string \<Rightarrow> hub \<Rightarrow> hub" where
  "toastSuccess m s = s\<lparr>toasts := toasts s @ [ToastSuccess m]\<rparr>"

text \<open>
  An \<^verbatim>\<open>async\<close> handler runs up to its \<^verbatim>\<open>await\<close>, and its continuation runs
  when the awaited call settles; other handlers and continuations may run in between.
  Each handler is therefore split at its \<^verbatim>\<open>await\<close>s: one function for the part
  that runs at the call, returning the new state and the request it issued, and one for
  each continuation, taking the outcome of the awaited call and the state at that
  moment.
\<close>

section \<open>Search\<close>

text \<open>\<^verbatim>\<open>handleSearch(query)\<close> awaits \<^verbatim>\<open>getNotes()\<close> when the trimmed query has
  fewer than two characters and \<^verbatim>\<open>searchResources(query)\<close> otherwise.\<close>

datatype searchRequest = GetNotes | SearchResources string

definition handleSearch_issue :: "string \<Rightarrow> hub \<Rightarrow> hub \<times> searchRequest" where
  "handleSearch_issue query s =
     (let s1 = s\<lparr>searchQuery := query\<rparr> in
      if length (trim query) < 2 then (s1, GetNotes)
      else (s1\<lparr>isSearching := True\<rparr>, SearchResources query))"

text \<open>The continuation of the call that issued \<open>req\<close>. In the list-all branch the
  \<^verbatim>\<open>catch\<close> block only writes to the console; in the search branch it raises a
  toast, and \<^verbatim>\<open>finally\<close> clears \<^verbatim>\<open>isSearching\<close>.\<close>

definition handleSearch_settle ::
  "string \<Rightarrow> searchRequest \<Rightarrow> js_error + rawNote list \<Rightarrow> hub \<Rightarrow> hub" where
  "handleSearch_settle now req outcome s =
     (let formatted = (case outcome of Inl e \<Rightarrow> Inl e | Inr rs \<Rightarrow> convertAll now rs) in
      case req of
        GetNotes \<Rightarrow>
          (case formatted of
             Inr formattedNotes \<Rightarrow> s\<lparr>notes := formattedNotes, isSearching := False\<rparr>
           | Inl error \<Rightarrow> s)
      | SearchResources query \<Rightarrow>
          (case formatted of
             Inr formattedNotes \<Rightarrow> s\<lparr>notes := formattedNotes, isSearching := False\<rparr>
           | Inl error \<Rightarrow> (toastError ''Search failed'' s)\<lparr>isSearching := False\<rparr>))"

text \<open>The initial fetch of the component (\<^verbatim>\<open>fetchNotes\<close> in \<^verbatim>\<open>useEffect\<close>): the
  same request as the list-all branch, with a toast in its \<^verbatim>\<open>catch\<close> block.\<close>

definition fetchNotes_issue :: "hub \<Rightarrow> hub" where
  "fetchNotes_issue s = s\<lparr>isLoading := True\<rparr>"

definition fetchNotes_settle :: "string \<Rightarrow> js_error + rawNote list \<Rightarrow> hub \<Rightarrow> hub" where
  "fetchNotes_settle now outcome s =
     (case (case outcome of Inl e \<Rightarrow> Inl e | Inr rs \<Rightarrow> convertAll now rs) of
        Inr formattedNotes \<Rightarrow> s\<lparr>notes := formattedNotes, isLoading := False\<rparr>
      | Inl error \<Rightarrow> (toastError ''Failed to load notes'' s)\<lparr>isLoading := False\<rparr>)"

section \<open>Summaries\<close>

text \<open>\<^verbatim>\<open>handleGenerateSummary(note)\<close> up to its \<^verbatim>\<open>await\<close>: the new state and the
  text passed to \<^verbatim>\<open>summarizeText\<close> (the second argument, \<^verbatim>\<open>parseInt(note.id)\<close>,
  is left out).\<close>

definition handleGenerateSummary_start :: "Note \<Rightarrow> hub \<Rightarrow> hub \<times> jsval" where
  "handleGenerateSummary_start note s =
     (s\<lparr>selectedNote := Some note, isSummaryModalOpen := True, isGeneratingSummary := True,
        summaryError := None, summary := []\<rparr>,
      js_or (js_or (note_content note) (note_summary note))
        (JStr (''Summarize the document: '' @ toStringConv (note_title note))))"

text \<open>The continuation of the call made for \<open>note\<close>, which the continuation itself
  never reads.\<close>

definition handleGenerateSummary_settle :: "Note \<Rightarrow> js_error + string \<Rightarrow> hub \<Rightarrow> hub" where
  "handleGenerateSummary_settle note outcome s =
     (case outcome of
        Inr result \<Rightarrow> s\<lparr>summary := result, isGeneratingSummary := False\<rparr>
      | Inl err \<Rightarrow>
          s\<lparr>summaryError :=
               Some (str_or (message err) ''Failed to generate summary. Please try again.''),
            isGeneratingSummary := False\<rparr>)"

text \<open>The \<^verbatim>\<open>onClose\<close> of the summary modal.\<close>

definition closeSummaryModal :: "hub \<Rightarrow> hub" where
  "closeSummaryModal s =
     s\<lparr>isSummaryModalOpen := False, selectedNote := None, summary := [], summaryError := None\<rparr>"

text \<open>The notes grid is rendered once the initial loading is over and the list is not
  empty, with one card for each note of the list.\<close>

definition cardRendered :: "Note \<Rightarrow> hub \<Rightarrow> bool" where
  "cardRendered note s = (\<not> isLoading s \<and> note \<in> set (notes s))"

text \<open>The "AI Summary" button of a note's card: rendered when \<^verbatim>\<open>note.content\<close> is
  truthy, and \<^verbatim>\<open>disabled={isGeneratingSummary}\<close>. It is the only caller of
  \<^verbatim>\<open>handleGenerateSummary\<close>. \<open>None\<close>: there is no such button, or it is
  disabled.\<close>

definition aiSummaryClick :: "Note \<Rightarrow> hub \<Rightarrow> (hub \<times> jsval) option" where
  "aiSummaryClick note s =
     (if cardRendered note s \<and> truthy (note_content note) \<and> \<not> isGeneratingSummary s
      then Some (handleGenerateSummary_start note s)
      else None)"

text \<open>The first button of a card is "Open Link" or "Open File" (which opens a new tab and
  changes no state) for a note of type url, pdf, docx or image with a URL other than
  \<^verbatim>\<open>'#'\<close>; otherwise it is "View Content", for a note of type other with truthy
  content, whose \<^verbatim>\<open>onClick\<close> is \<^verbatim>\<open>setSelectedNote(note)\<close>. The button has no
  \<^verbatim>\<open>disabled\<close> attribute.\<close>

definition opensInNewTab :: "Note \<Rightarrow> bool" where
  "opensInNewTab note =
     ((note_type note = Url \<or> note_type note = Pdf \<or> note_type note = Docx \<or>
       note_type note = Image) \<and>
      truthy (note_url note) \<and> note_url note \<noteq> JStr ''#'')"

definition viewContentClick :: "Note \<Rightarrow> hub \<Rightarrow> hub option" where
  "viewContentClick note s =
     (if cardRendered note s \<and> \<not> opensInNewTab note \<and> note_type note = Other \<and>
         truthy (note_content note)
      then Some (s\<lparr>selectedNote := Some note\<rparr>)
      else None)"

text \<open>The close button of the note detail modal, which is rendered while
  \<^verbatim>\<open>selectedNote\<close> is set: \<^verbatim>\<open>setSelectedNote(null)\<close>.\<close>

definition closeDetailClick :: "hub \<Rightarrow> hub option" where
  "closeDetailClick s =
     (case selectedNote s of None \<Rightarrow> None | Some n \<Rightarrow> Some (s\<lparr>selectedNote := None\<rparr>))"

text \<open>What the summary modal shows: it is rendered when \<^verbatim>\<open>isSummaryModalOpen\<close> and
  \<^verbatim>\<open>selectedNote\<close> are set, under the title of the selected note, and its body is
  \<^verbatim>\<open>isLoading ? spinner : error ? error : summary\<close>.\<close>

datatype modalBody = Spinner | ErrorText string | SummaryText string

datatype modalView = NotRendered | Rendered jsval modalBody

definition summaryModalView :: "hub \<Rightarrow> modalView" where
  "summaryModalView s =
     (if isSummaryModalOpen s then
        (case selectedNote s of
           None \<Rightarrow> NotRendered
         | Some n \<Rightarrow>
             Rendered (note_title n)
               (if isGeneratingSummary s then Spinner
                else (case summaryError s of
                        None \<Rightarrow> SummaryText (summary s)
                      | Some e \<Rightarrow> if e \<noteq> [] then ErrorText e else SummaryText (summary s))))
      else NotRendered)"

text \<open>Closing the summary modal, which is possible while it is rendered.\<close>

definition closeSummaryClick :: "hub \<Rightarrow> hub option" where
  "closeSummaryClick s =
     (if summaryModalView s = NotRendered then None else Some (closeSummaryModal s))"

section \<open>Uploads\<close>

type_synonym formData = "(string \<times> (string + jsFile)) list"

definition draftTypeName :: "draftType \<Rightarrow> string" where
  "draftTypeName t = (case t of TEXT \<Rightarrow> ''TEXT'' | LINK \<Rightarrow> ''LINK'' | FILE \<Rightarrow> ''FILE'')"

text \<open>The \<^verbatim>\<open>FormData\<close> that \<^verbatim>\<open>handleSubmit\<close> builds, entry by entry, in the order of
  its \<^verbatim>\<open>append\<close> calls.\<close>

definition buildFormData :: "draft \<Rightarrow> formData" where
  "buildFormData d =
     [(''title'', Inl (trim (draft_title d))),
      (''type'', Inl (draftTypeName (draft_type d))),
      (''subject'', Inl (str_or (draft_subject d) [])),
      (''is_public'', Inl (if draft_is_public d then ''true'' else ''false''))]
     @ (if length (draft_tags d) > 0 then [(''tags'', Inl (join '','' (draft_tags d)))] else [])
     @ (case draft_file d of
          Some f \<Rightarrow> if draft_type d = FILE then [(''file'', Inr f)] else []
        | None \<Rightarrow> [])
     @ (if draft_type d = TEXT \<or> draft_type d = LINK then
          (if draft_content d \<noteq> [] \<and> trim (draft_content d) \<noteq> []
           then [(''content'', Inl (trim (draft_content d)))] else [])
        else if draft_type d = FILE \<and> draft_content d \<noteq> [] \<and> trim (draft_content d) \<noteq> []
        then [(''content'', Inl (trim (draft_content d)))]
        else [])"

text \<open>\<^verbatim>\<open>handleSubmit\<close> up to \<^verbatim>\<open>await uploadFile(formData)\<close>. Each failed
  validation raises its toast and returns; \<open>None\<close>: no upload request was issued.\<close>

definition handleSubmit_start :: "hub \<Rightarrow> hub \<times> formData option" where
  "handleSubmit_start s =
     (let d = newNote s in
      if trim (draft_title d) = [] then (toastError ''Please enter a title'' s, None)
      else if draft_type d = LINK \<and>
              (draft_content d = [] \<or> \<not> startsWith (trim (draft_content d)) ''http'')
      then (toastError ''Please enter a valid URL'' s, None)
      else if draft_type d = TEXT \<and> trim (draft_content d) = []
      then (toastError ''Please enter text content'' s, None)
      else if draft_type d = FILE \<and> draft_file d = None
      then (toastError ''Please upload a file'' s, None)
      else (s\<lparr>isSubmitting := True\<rparr>, Some (buildFormData d)))"

text \<open>The provisional note built from the upload response.\<close>

definition uploadedNote :: "string \<Rightarrow> UploadResponse \<Rightarrow> Note" where
  "uploadedNote now response =
     \<lparr> note_id = resp_id response,
       note_title = JStr (resp_title response),
       note_type =
         (if resp_type response = ''text'' then Other
          else if resp_type response = ''link'' then Url
          else getFileTypeFromUrl (str_or (resp_url response) [])),
       note_url = JStr (str_or (resp_url response) ''#''),
       note_tags = resp_tags response,
       note_uploadDate = JStr (str_or (resp_uploadDate response) now),
       note_rating = 0,
       note_size = resp_size response,
       note_uploader_name = ''You'',
       note_uploader_avatarUrl = [],
       note_content = JStr (str_or (resp_content response) []),
       note_summary = JStr (str_or (resp_content response) []) \<rparr>"

text \<open>The continuation after \<^verbatim>\<open>uploadFile\<close>. On success the provisional note is put
  in front of the list and \<^verbatim>\<open>getNotes()\<close> is awaited (\<open>Some response\<close>: the
  re-fetch was issued, by the call holding \<open>response\<close>). On failure the outer
  \<^verbatim>\<open>catch\<close> raises a toast and \<^verbatim>\<open>finally\<close> clears \<^verbatim>\<open>isSubmitting\<close>.\<close>

definition handleSubmit_uploaded ::
  "string \<Rightarrow> js_error + UploadResponse \<Rightarrow> hub \<Rightarrow> hub \<times> UploadResponse option" where
  "handleSubmit_uploaded now outcome s =
     (case outcome of
        Inr response \<Rightarrow> (s\<lparr>notes := uploadedNote now response # notes s\<rparr>, Some response)
      | Inl error \<Rightarrow>
          ((toastError (str_or (message error) ''Failed to upload note. Please try again.'') s)
             \<lparr>isSubmitting := False\<rparr>,
           None))"

text \<open>The continuation after the re-fetch: the inner \<^verbatim>\<open>try\<close> replaces the list or,
  when the re-fetch or the conversion throws, leaves it; then the modal closes, the form
  is reset and the success toast is raised.\<close>

definition handleSubmit_refreshed ::
  "string \<Rightarrow> UploadResponse \<Rightarrow> js_error + rawNote list \<Rightarrow> hub \<Rightarrow> hub" where
  "handleSubmit_refreshed now response outcome s =
     (let s1 = (case (case outcome of Inl e \<Rightarrow> Inl e | Inr rs \<Rightarrow> convertAll now rs) of
                  Inr formattedNotes \<Rightarrow> s\<lparr>notes := formattedNotes\<rparr>
                | Inl error \<Rightarrow> s)
      in (toastSuccess (str_or (resp_message response) ''Note saved successfully!'')
            (s1\<lparr>isUploadModalOpen := False, newNote := emptyDraft\<rparr>))
         \<lparr>isSubmitting := False\<rparr>)"

section \<open>The component as a sequence of events\<close>

text \<open>
  The component together with the summary requests in flight. \<open>ui_pending\<close> lists the
  notes whose \<^verbatim>\<open>handleGenerateSummary\<close> call is waiting at its \<^verbatim>\<open>await\<close>.
  \<open>ui_shownFor\<close> is bookkeeping the source does not have: the note whose response
  produced the summary text or error now held in the state, \<open>None\<close> after the
  summary state was reset.
\<close>

record ui =
  ui_hub :: hub
  ui_pending :: "Note list"
  ui_shownFor :: "Note option"

definition initialUi :: ui where
  "initialUi = \<lparr> ui_hub = initialHub, ui_pending = [], ui_shownFor = None \<rparr>"

text \<open>What can happen to the component: the answers of the server to its requests (with
  the time of the clock where a continuation reads it) and the activations of its
  controls. \<open>FormEdited\<close> stands for the controls of the upload form, which set the
  draft and the flag of the upload modal.\<close>

datatype event =
    NotesFetched string "axiosError + rawNote list"
  | SearchTyped string
  | SearchAnswered string searchRequest "axiosError + rawNote list"
  | FormEdited draft bool
  | SubmitClicked
  | UploadAnswered string "axiosError + UploadResponse"
  | RefetchAnswered string UploadResponse "axiosError + rawNote list"
  | AiSummaryClicked Note
  | SummaryAnswered Note "axiosError + string"
  | SummaryModalClosed
  | ViewContentClicked Note
  | DetailClosed

definition onHub :: "(hub \<Rightarrow> hub) \<Rightarrow> ui \<Rightarrow> ui option" where
  "onHub f u = Some (u\<lparr>ui_hub := f (ui_hub u)\<rparr>)"

text \<open>One event. \<open>None\<close>: the control is not rendered or is disabled, or no request
  of that kind is in flight. The answers to list requests are accepted at any time.\<close>

fun step :: "event \<Rightarrow> ui \<Rightarrow> ui option" where
  "step (NotesFetched now out) u = onHub (fetchNotes_settle now (getNotes out)) u"
| "step (SearchTyped query) u = onHub (\<lambda>s. fst (handleSearch_issue query s)) u"
| "step (SearchAnswered now req out) u =
     onHub (handleSearch_settle now req
              (case req of GetNotes \<Rightarrow> getNotes out
                         | SearchResources query \<Rightarrow> searchResources out)) u"
| "step (FormEdited d opened) u = onHub (\<lambda>s. s\<lparr>newNote := d, isUploadModalOpen := opened\<rparr>) u"
| "step SubmitClicked u = onHub (\<lambda>s. fst (handleSubmit_start s)) u"
| "step (UploadAnswered now out) u =
     onHub (\<lambda>s. fst (handleSubmit_uploaded now (uploadFile out) s)) u"
| "step (RefetchAnswered now response out) u =
     onHub (handleSubmit_refreshed now response (getNotes out)) u"
| "step (AiSummaryClicked n) u =
     (case aiSummaryClick n (ui_hub u) of
        None \<Rightarrow> None
      | Some (s, text) \<Rightarrow>
          Some \<lparr> ui_hub = s, ui_pending = n # ui_pending u, ui_shownFor = None \<rparr>)"
| "step (SummaryAnswered n out) u =
     (if n \<in> set (ui_pending u)
      then Some \<lparr> ui_hub = handleGenerateSummary_settle n (summarizeText (generateSummary out))
                              (ui_hub u),
                  ui_pending = remove1 n (ui_pending u),
                  ui_shownFor = Some n \<rparr>
      else None)"
| "step SummaryModalClosed u =
     (case closeSummaryClick (ui_hub u) of
        None \<Rightarrow> None
      | Some s \<Rightarrow> Some (u\<lparr>ui_hub := s, ui_shownFor := None\<rparr>))"
| "step (ViewContentClicked n) u =
     (case viewContentClick n (ui_hub u) of
        None \<Rightarrow> None
      | Some s \<Rightarrow> Some (u\<lparr>ui_hub := s\<rparr>))"
| "step DetailClosed u =
     (case closeDetailClick (ui_hub u) of
        None \<Rightarrow> None
      | Some s \<Rightarrow> Some (u\<lparr>ui_hub := s\<rparr>))"

fun run :: "event list \<Rightarrow> ui \<Rightarrow> ui option" where
  "run [] u = Some u"
| "run (e # es) u = (case step e u of None \<Rightarrow> None | Some u' \<Rightarrow> run es u')"

text \<open>The summary modal is drawn over the whole window. The controls of the cards and of
  the detail modal lie under it: a pointer cannot reach them while it is rendered, though
  they stay rendered, enabled and focusable. \<open>pointerRun\<close> is \<open>run\<close> restricted to
  the sequences in which none of them is activated while the summary modal is rendered.\<close>

fun underSummaryModal :: "event \<Rightarrow> bool" where
  "underSummaryModal (AiSummaryClicked n) = True"
| "underSummaryModal (ViewContentClicked n) = True"
| "underSummaryModal DetailClosed = True"
| "underSummaryModal e = False"

fun pointerRun :: "event list \<Rightarrow> ui \<Rightarrow> ui option" where
  "pointerRun [] u = Some u"
| "pointerRun (e # es) u =
     (if underSummaryModal e \<and> summaryModalView (ui_hub u) \<noteq> NotRendered then None
      else (case step e u of None \<Rightarrow> None | Some u' \<Rightarrow> pointerRun es u'))"

text \<open>The summary text or error on display was produced by the request made for the
  selected note. An empty summary text shows nothing.\<close>

definition shownForSelected :: "ui \<Rightarrow> bool" where
  "shownForSelected u =
     (case summaryModalView (ui_hub u) of
        NotRendered \<Rightarrow> True
      | Rendered title Spinner \<Rightarrow> True
      | Rendered title (ErrorText e) \<Rightarrow> ui_shownFor u = selectedNote (ui_hub u)
      | Rendered title (SummaryText x) \<Rightarrow> x = [] \<or> ui_shownFor u = selectedNote (ui_hub u))"

text \<open>The invariants of the two kinds of runs.\<close>

definition oneRequest :: "ui \<Rightarrow> bool" where
  "oneRequest u =
     (isGeneratingSummary (ui_hub u) = (ui_pending u \<noteq> []) \<and> length (ui_pending u) \<le> 1)"

definition sessionInv :: "ui \<Rightarrow> bool" where
  "sessionInv u =
     (oneRequest u \<and>
      (if isSummaryModalOpen (ui_hub u)
       then selectedNote (ui_hub u) \<noteq> None \<and>
            list_all (\<lambda>n. selectedNote (ui_hub u) = Some n) (ui_pending u) \<and>
            (ui_shownFor u = None \<or> ui_shownFor u = selectedNote (ui_hub u))
       else True) \<and>
      (if ui_shownFor u = None then summary (ui_hub u) = [] \<and> summaryError (ui_hub u) = None
       else True))"

section \<open>Example inputs\<close>

text \<open>A backend record with the given \<^verbatim>\<open>id\<close>, \<^verbatim>\<open>title\<close>, \<^verbatim>\<open>file_url\<close> and
  \<^verbatim>\<open>summary\<close>, and without \<^verbatim>\<open>extracted_content\<close> and \<^verbatim>\<open>created_at\<close>.\<close>

definition textRecord :: "jsval \<Rightarrow> jsval \<Rightarrow> jsval \<Rightarrow> jsval \<Rightarrow> rawNote" where
  "textRecord i t u sm =
     \<lparr> raw_id = i, raw_title = t, raw_file_url = u, raw_summary = sm,
       raw_extracted_content = JUndefined, raw_created_at = JUndefined \<rparr>"

text \<open>A text note as the list holds it, with the given id, title and content.\<close>

definition textNote :: "string \<Rightarrow> string \<Rightarrow> string \<Rightarrow> Note" where
  "textNote i t c =
     \<lparr> note_id = i, note_title = JStr t, note_type = Other, note_url = JStr ''#'',
       note_tags = [], note_uploadDate = JStr ''2026-01-05T10:00:00.000Z'', note_rating = 0,
       note_size = [], note_uploader_name = ''You'', note_uploader_avatarUrl = [],
       note_content = JStr c, note_summary = JStr c \<rparr>"

text \<open>The freshly mounted component with a LINK draft of the given title and content in
  its form.\<close>

definition linkDraft :: "string \<Rightarrow> string \<Rightarrow> hub" where
  "linkDraft t c =
     initialHub\<lparr>newNote := emptyDraft\<lparr>draft_type := LINK, draft_title := t, draft_content := c\<rparr>\<rparr>"

text \<open>An upload response for a link.\<close>

definition linkResponse :: UploadResponse where
  "linkResponse =
     \<lparr> resp_id = ''15'', resp_url = ''https://example.com/a'', resp_title = ''Course page'',
       resp_type = ''link'', resp_tags = [''AI''], resp_size = [], resp_uploadDate = [],
       resp_message = ''Link saved'', resp_content = [] \<rparr>"

text \<open>The list is fetched with two text notes, then the "AI Summary" button of the first
  one is activated.\<close>

definition summaryTrace :: "event list" where
  "summaryTrace =
     [NotesFetched ''2026-01-05T10:00:00.000Z''
        (Inr [textRecord (JStr ''1'') (JStr ''Sorting'') JNull
                (JStr ''Quicksort partitions the array.''),
              textRecord (JStr ''2'') (JStr ''Hashing'') JNull
                (JStr ''Hash tables map keys to buckets.'')]),
      AiSummaryClicked (textNote ''1'' ''Sorting'' ''Quicksort partitions the array.'')]"

section \<open>Classification and conversion of backend records\<close>

lemma startsWith_iff: "startsWith s p = (\<exists>r. s = p @ r)"
  unfolding startsWith_def
  by (metis append_eq_conv_conj append_take_drop_id)

lemma absolute_is_http:
  assumes "startsWith u ''http://'' \<or> startsWith u ''https://''"
  shows "startsWith u ''http'' \<and> u \<noteq> [] \<and> u \<noteq> ''None''"
  using assms by (auto simp: startsWith_iff)

lemma noteTypeOf_absent:
  "raw_file_url note = JUndefined \<or> raw_file_url note = JNull \<or> raw_file_url note = JStr []
   \<Longrightarrow> noteTypeOf note = Inr Other"
  by (auto simp: noteTypeOf_def fileUrlOf_def js_or_def falsy_def)

lemma noteTypeOf_throws_iff:
  "(\<exists>e. noteTypeOf note = Inl e) = (truthy (raw_file_url note) \<and> \<not> isString (raw_file_url note))"
  by (cases "raw_file_url note")
     (auto simp: noteTypeOf_def fileUrlOf_def js_or_def falsy_def isString_def Let_def)

lemma toStringMethod_throws_iff:
  "(\<exists>e. toStringMethod v = Inl e) = (v = JUndefined \<or> v = JNull)"
  by (cases v) auto

lemma convert_throws_iff:
  "(\<exists>e. convertBackendNoteToFrontend now note = Inl e) =
   (raw_id note = JUndefined \<or> raw_id note = JNull \<or>
    (truthy (raw_file_url note) \<and> \<not> isString (raw_file_url note)))"
proof -
  have "(\<exists>e. convertBackendNoteToFrontend now note = Inl e) =
        ((\<exists>e. noteTypeOf note = Inl e) \<or> (\<exists>e. toStringMethod (raw_id note) = Inl e))"
    by (auto simp: convertBackendNoteToFrontend_def Let_def split: sum.splits)
  then show ?thesis
    by (simp only: noteTypeOf_throws_iff toStringMethod_throws_iff) blast
qed

lemma convertAll_length:
  "convertAll now rs = Inr ns \<Longrightarrow> length ns = length rs"
  by (induction rs arbitrary: ns) (auto split: sum.splits)

lemma convertAll_throws_iff:
  "(\<exists>e. convertAll now rs = Inl e) =
   list_ex (\<lambda>r. \<exists>e. convertBackendNoteToFrontend now r = Inl e) rs"
  by (induction rs) (auto split: sum.splits)

text \<open>
  Claim C3, as amended. \<^verbatim>\<open>convertBackendNoteToFrontend\<close> throws (a TypeError) exactly
  when the record's \<^verbatim>\<open>id\<close> is missing or null, or its \<^verbatim>\<open>file_url\<close> is truthy
  and not a string; every other record is converted. A record with an id and without
  \<^verbatim>\<open>file_url\<close>, \<^verbatim>\<open>summary\<close> and \<^verbatim>\<open>extracted_content\<close> becomes a note of type
  \<^verbatim>\<open>'other'\<close> (text) with empty content, its title kept as it is (also when
  missing). The map over a fetched list throws exactly when the conversion of one of its
  records throws, and otherwise returns one note for each record.
\<close>

theorem C3_conversion_throws_exactly_when:
  "((\<exists>e. convertBackendNoteToFrontend now note = Inl e) =
      (raw_id note = JUndefined \<or> raw_id note = JNull \<or>
       (truthy (raw_file_url note) \<and> \<not> isString (raw_file_url note))))
   \<and> (\<forall>i. toStringMethod (raw_id note) = Inr i \<and> falsy (raw_file_url note) \<and>
            falsy (raw_summary note) \<and> falsy (raw_extracted_content note) \<longrightarrow>
          convertBackendNoteToFrontend now note =
          Inr \<lparr> note_id = i, note_title = raw_title note, note_type = Other,
                note_url = JStr ''#'', note_tags = [],
                note_uploadDate = js_or (raw_created_at note) (JStr now),
                note_rating = 0, note_size = [], note_uploader_name = ''You'',
                note_uploader_avatarUrl = [], note_content = JStr [],
                note_summary = JStr [] \<rparr>)
   \<and> ((\<exists>e. convertAll now rs = Inl e) =
        list_ex (\<lambda>r. \<exists>e. convertBackendNoteToFrontend now r = Inl e) rs)
   \<and> (\<forall>ns. convertAll now rs = Inr ns \<longrightarrow> length ns = length rs)"
proof -
  have "\<forall>i. toStringMethod (raw_id note) = Inr i \<and> falsy (raw_file_url note) \<and>
            falsy (raw_summary note) \<and> falsy (raw_extracted_content note) \<longrightarrow>
          convertBackendNoteToFrontend now note =
          Inr \<lparr> note_id = i, note_title = raw_title note, note_type = Other,
                note_url = JStr ''#'', note_tags = [],
                note_uploadDate = js_or (raw_created_at note) (JStr now),
                note_rating = 0, note_size = [], note_uploader_name = ''You'',
                note_uploader_avatarUrl = [], note_content = JStr [],
                note_summary = JStr [] \<rparr>"
    by (simp add: convertBackendNoteToFrontend_def noteTypeOf_def fileUrlOf_def js_or_def
        falsy_def Let_def)
  then show ?thesis
    using convert_throws_iff [of now "note"] convertAll_throws_iff [of now rs]
      convertAll_length [of now rs]
    by blast
qed

text \<open>
  Claim C3 as stated fails: a record without \<^verbatim>\<open>id\<close> makes
  \<^verbatim>\<open>note.id.toString()\<close> throw, and one such record in a fetched list makes the
  whole map throw.
\<close>

theorem C3_counterexample:
  "convertBackendNoteToFrontend ''2026-01-05T10:00:00.000Z''
     (textRecord JUndefined (JStr ''Untitled'') JNull JUndefined) = Inl TypeError
   \<and> convertAll ''2026-01-05T10:00:00.000Z''
       [textRecord (JStr ''7'') (JStr ''Notes'') JNull (JStr ''Key ideas on recursion''),
        textRecord JNull JUndefined JNull JUndefined] = Inl TypeError"
  by (simp add: textRecord_def convertBackendNoteToFrontend_def noteTypeOf_def fileUrlOf_def
      js_or_def falsy_def Let_def)

theorem C3_witness:
  "convertBackendNoteToFrontend ''2026-01-05T10:00:00.000Z''
     (textRecord (JNum 41) JUndefined JUndefined JUndefined) =
   Inr \<lparr> note_id = ''41'', note_title = JUndefined, note_type = Other,
         note_url = JStr ''#'', note_tags = [],
         note_uploadDate = JStr ''2026-01-05T10:00:00.000Z'',
         note_rating = 0, note_size = [], note_uploader_name = ''You'',
         note_uploader_avatarUrl = [], note_content = JStr [], note_summary = JStr [] \<rparr>
   \<and> (\<exists>e. convertAll ''2026-01-05T10:00:00.000Z''
            [textRecord (JNum 41) JUndefined JUndefined JUndefined,
             textRecord (JStr ''8'') (JStr ''Scan'') (JNum 5) JUndefined] = Inl e)"
proof -
  let ?good = "textRecord (JNum 41) JUndefined JUndefined JUndefined"
  let ?bad = "textRecord (JStr ''8'') (JStr ''Scan'') (JNum 5) JUndefined"
  let ?now = "''2026-01-05T10:00:00.000Z''"
  have pre: "toStringMethod (raw_id ?good) = Inr ''41'' \<and> falsy (raw_file_url ?good) \<and>
      falsy (raw_summary ?good) \<and> falsy (raw_extracted_content ?good)"
    by (simp add: textRecord_def falsy_def intToString_def digits.simps digitChar_def)
  have bad: "\<exists>e. convertBackendNoteToFrontend ?now ?bad = Inl e"
    using C3_conversion_throws_exactly_when [of ?now ?bad "[]"]
    by (simp add: textRecord_def isString_def)
  have ex: "list_ex (\<lambda>r. \<exists>e. convertBackendNoteToFrontend ?now r = Inl e) [?good, ?bad]"
    using bad by simp
  have all: "\<exists>e. convertAll ?now [?good, ?bad] = Inl e"
    using C3_conversion_throws_exactly_when [of ?now ?good "[?good, ?bad]"] ex by blast
  have "convertBackendNoteToFrontend ?now ?good =
          Inr \<lparr> note_id = ''41'', note_title = raw_title ?good, note_type = Other,
                note_url = JStr ''#'', note_tags = [],
                note_uploadDate = js_or (raw_created_at ?good) (JStr ?now),
                note_rating = 0, note_size = [], note_uploader_name = ''You'',
                note_uploader_avatarUrl = [], note_content = JStr [],
                note_summary = JStr [] \<rparr>"
    using C3_conversion_throws_exactly_when [of ?now ?good "[]"] pre by blast
  then have "convertBackendNoteToFrontend ?now ?good =
          Inr \<lparr> note_id = ''41'', note_title = JUndefined, note_type = Other,
                note_url = JStr ''#'', note_tags = [],
                note_uploadDate = JStr ?now,
                note_rating = 0, note_size = [], note_uploader_name = ''You'',
                note_uploader_avatarUrl = [], note_content = JStr [],
                note_summary = JStr [] \<rparr>"
    by (simp add: textRecord_def js_or_def)
  with all show ?thesis by blast
qed

text \<open>
  Claim C4. The record \<^verbatim>\<open>{id:"7", title:"Notes", file_url:null, summary:"Key ideas on
  recursion"}\<close> is converted to a note of type \<^verbatim>\<open>'other'\<close> (the text category), with
  \<^verbatim>\<open>url\<close> set to \<^verbatim>\<open>'#'\<close> (the component's marker for "no URL", which it never
  dereferences) and content "Key ideas on recursion". For every record whose
  \<^verbatim>\<open>file_url\<close> is absent, null or empty the computed type is \<^verbatim>\<open>'other'\<close>, and the
  conversion returns a note of that type with url \<^verbatim>\<open>'#'\<close> whenever the record has
  an id.
\<close>

theorem C4_absent_file_url_is_text:
  assumes "raw_file_url note = JUndefined \<or> raw_file_url note = JNull \<or> raw_file_url note = JStr []"
  shows "convertBackendNoteToFrontend now
           (textRecord (JStr ''7'') (JStr ''Notes'') JNull (JStr ''Key ideas on recursion'')) =
         Inr \<lparr> note_id = ''7'', note_title = JStr ''Notes'', note_type = Other,
               note_url = JStr ''#'', note_tags = [], note_uploadDate = JStr now,
               note_rating = 0, note_size = [], note_uploader_name = ''You'',
               note_uploader_avatarUrl = [],
               note_content = JStr ''Key ideas on recursion'',
               note_summary = JStr ''Key ideas on recursion'' \<rparr>
       \<and> noteTypeOf note = Inr Other
       \<and> (\<forall>n. convertBackendNoteToFrontend now note = Inr n \<longrightarrow>
              note_type n = Other \<and> note_url n = JStr ''#'')
       \<and> (\<forall>i. toStringMethod (raw_id note) = Inr i \<longrightarrow>
              (\<exists>n. convertBackendNoteToFrontend now note = Inr n))"
proof -
  have t: "noteTypeOf note = Inr Other"
    using assms by (rule noteTypeOf_absent)
  have ex: "convertBackendNoteToFrontend now
           (textRecord (JStr ''7'') (JStr ''Notes'') JNull (JStr ''Key ideas on recursion'')) =
         Inr \<lparr> note_id = ''7'', note_title = JStr ''Notes'', note_type = Other,
               note_url = JStr ''#'', note_tags = [], note_uploadDate = JStr now,
               note_rating = 0, note_size = [], note_uploader_name = ''You'',
               note_uploader_avatarUrl = [],
               note_content = JStr ''Key ideas on recursion'',
               note_summary = JStr ''Key ideas on recursion'' \<rparr>"
    by (simp add: textRecord_def convertBackendNoteToFrontend_def noteTypeOf_def fileUrlOf_def
        js_or_def falsy_def)
  have u: "\<forall>n. convertBackendNoteToFrontend now note = Inr n \<longrightarrow>
              note_type n = Other \<and> note_url n = JStr ''#''"
    using assms t
    by (auto simp: convertBackendNoteToFrontend_def fileUrlOf_def js_or_def Let_def split: sum.splits)
  have r: "\<forall>i. toStringMethod (raw_id note) = Inr i \<longrightarrow>
              (\<exists>n. convertBackendNoteToFrontend now note = Inr n)"
    using t by (simp add: convertBackendNoteToFrontend_def Let_def)
  from ex t u r show ?thesis by blast
qed

theorem C4_witness:
  "noteTypeOf (textRecord (JNum 12) (JStr ''Draft'') (JStr []) JUndefined) = Inr Other
   \<and> convertBackendNoteToFrontend ''2026-01-05T10:00:00.000Z''
        (textRecord (JNum 12) (JStr ''Draft'') (JStr []) JUndefined) =
      Inr \<lparr> note_id = ''12'', note_title = JStr ''Draft'', note_type = Other,
            note_url = JStr ''#'', note_tags = [],
            note_uploadDate = JStr ''2026-01-05T10:00:00.000Z'',
            note_rating = 0, note_size = [], note_uploader_name = ''You'',
            note_uploader_avatarUrl = [], note_content = JStr [], note_summary = JStr [] \<rparr>"
proof -
  have h: "raw_file_url (textRecord (JNum 12) (JStr ''Draft'') (JStr []) JUndefined) = JUndefined
      \<or> raw_file_url (textRecord (JNum 12) (JStr ''Draft'') (JStr []) JUndefined) = JNull
      \<or> raw_file_url (textRecord (JNum 12) (JStr ''Draft'') (JStr []) JUndefined) = JStr []"
    by (simp add: textRecord_def)
  have i: "toStringMethod (raw_id (textRecord (JNum 12) (JStr ''Draft'') (JStr []) JUndefined)) = Inr ''12''"
    by (simp add: textRecord_def intToString_def digits.simps digitChar_def)
  from C4_absent_file_url_is_text [OF h, of "''2026-01-05T10:00:00.000Z''"] i
  obtain n where n: "convertBackendNoteToFrontend ''2026-01-05T10:00:00.000Z''
        (textRecord (JNum 12) (JStr ''Draft'') (JStr []) JUndefined) = Inr n"
    and "noteTypeOf (textRecord (JNum 12) (JStr ''Draft'') (JStr []) JUndefined) = Inr Other"
    by blast
  then show ?thesis
    by (simp add: textRecord_def convertBackendNoteToFrontend_def noteTypeOf_def fileUrlOf_def
        js_or_def falsy_def Let_def intToString_def digits.simps digitChar_def)
qed

text \<open>
  Claim C5 fails on the code. A \<^verbatim>\<open>file_url\<close> that starts with \<^verbatim>\<open>http://\<close> or
  \<^verbatim>\<open>https://\<close> and has none of the known extensions becomes \<^verbatim>\<open>'url'\<close> whether or
  not it contains \<^verbatim>\<open>/uploads/\<close> or a cloudinary host: with such a marker it reaches
  \<^verbatim>\<open>getFileTypeFromUrl\<close>, whose \<^verbatim>\<open>startsWith('http')\<close> test answers
  \<^verbatim>\<open>'url'\<close> again. A hosted file without a known extension is thus classified as a
  link, not as \<^verbatim>\<open>'other'\<close>; two such URLs are evaluated.
\<close>

theorem C5_absolute_url_without_extension_is_url:
  "(raw_file_url note = JStr u \<and> (startsWith u ''http://'' \<or> startsWith u ''https://'') \<and>
      \<not> includesStr u ''.pdf'' \<and> \<not> includesStr u ''.docx'' \<and> \<not> includesStr u ''.doc'' \<and>
      \<not> matchImageExt u
      \<longrightarrow> noteTypeOf note = Inr Url)
   \<and> noteTypeOf (textRecord (JNum 3) (JStr ''Report'')
                 (JStr ''https://example.com/uploads/report.txt'') JUndefined) = Inr Url
   \<and> noteTypeOf (textRecord (JNum 4) (JStr ''Archive'')
                 (JStr ''https://res.cloudinary.com/x/raw/upload/v1/archive.zip'') JUndefined) =
       Inr Url
   \<and> map_sum id note_type
         (convertBackendNoteToFrontend now
            (textRecord (JNum 3) (JStr ''Report'')
               (JStr ''https://example.com/uploads/report.txt'') JUndefined)) = Inr Url"
proof -
  have g: "noteTypeOf note = Inr Url"
    if "raw_file_url note = JStr u" "startsWith u ''http://'' \<or> startsWith u ''https://''"
      "\<not> includesStr u ''.pdf''" "\<not> includesStr u ''.docx''" "\<not> includesStr u ''.doc''"
      "\<not> matchImageExt u"
  proof -
    from that(2) have h: "startsWith u ''http''" "u \<noteq> []" "u \<noteq> ''None''"
      using absolute_is_http by blast+
    with that show ?thesis
      by (simp add: noteTypeOf_def fileUrlOf_def js_or_def falsy_def getFileTypeFromUrl_def
          Let_def)
  qed
  have c: "noteTypeOf (textRecord (JNum 3) (JStr ''Report'')
                 (JStr ''https://example.com/uploads/report.txt'') JUndefined) = Inr Url
   \<and> noteTypeOf (textRecord (JNum 4) (JStr ''Archive'')
                 (JStr ''https://res.cloudinary.com/x/raw/upload/v1/archive.zip'') JUndefined) =
       Inr Url"
    by (simp add: textRecord_def noteTypeOf_def fileUrlOf_def js_or_def falsy_def startsWith_def
      getFileTypeFromUrl_def matchImageExt_def endsWith_def lowerChar_def Let_def)
  from c have d: "map_sum id note_type
         (convertBackendNoteToFrontend now
            (textRecord (JNum 3) (JStr ''Report'')
               (JStr ''https://example.com/uploads/report.txt'') JUndefined)) = Inr Url"
    by (simp add: convertBackendNoteToFrontend_def textRecord_def intToString_def Let_def)
  from g c d show ?thesis by blast
qed

theorem C5_witness:
  "includesStr ''https://example.com/uploads/handout'' ''/uploads/''
   \<and> noteTypeOf (textRecord (JStr ''9'') (JStr ''Handout'')
                   (JStr ''https://example.com/uploads/handout'') JUndefined) = Inr Url"
proof -
  let ?u = "''https://example.com/uploads/handout''"
  let ?r = "textRecord (JStr ''9'') (JStr ''Handout'') (JStr ?u) JUndefined"
  have m: "includesStr ?u ''/uploads/''"
    by (simp add: startsWith_def)
  have h: "raw_file_url ?r = JStr ?u \<and> (startsWith ?u ''http://'' \<or> startsWith ?u ''https://'') \<and>
      \<not> includesStr ?u ''.pdf'' \<and> \<not> includesStr ?u ''.docx'' \<and> \<not> includesStr ?u ''.doc'' \<and>
      \<not> matchImageExt ?u"
    by (simp add: textRecord_def startsWith_def matchImageExt_def endsWith_def lowerChar_def)
  from C5_absolute_url_without_extension_is_url [of ?r ?u] h m show ?thesis by blast
qed

section \<open>Overlapping searches\<close>

lemma handleSearch_settle_success:
  "convertAll now rs = Inr ns \<Longrightarrow> notes (handleSearch_settle now req (Inr rs) s) = ns"
  by (cases req) (simp_all add: handleSearch_settle_def)

lemma handleSearch_settle_failure:
  "notes (handleSearch_settle now req (Inl e) s) = notes s"
  by (cases req) (simp_all add: handleSearch_settle_def toastError_def)

text \<open>
  Claim C1, as amended. \<^verbatim>\<open>handleSearch\<close> keeps no sequence number: every successful
  response replaces the list when it arrives. For searches issued in the order A, B whose
  responses arrive in the order B, A, the list shows B's notes after B's response and A's
  notes after both; B's notes stay only if A's late response is a failure.
\<close>

theorem C1_last_arrival_wins:
  assumes "handleSearch_issue qA s = (sA, reqA)"
    and "handleSearch_issue qB sA = (sB, reqB)"
    and "convertAll nowA rsA = Inr nsA"
    and "convertAll nowB rsB = Inr nsB"
  shows "notes (handleSearch_settle nowB reqB (Inr rsB) sB) = nsB
       \<and> notes (handleSearch_settle nowA reqA (Inr rsA)
                  (handleSearch_settle nowB reqB (Inr rsB) sB)) = nsA
       \<and> notes (handleSearch_settle nowA reqA (Inl e)
                  (handleSearch_settle nowB reqB (Inr rsB) sB)) = nsB"
  using assms(3,4) by (simp add: handleSearch_settle_success handleSearch_settle_failure)

text \<open>
  Claim C1 as stated fails: the search for "gr" is issued before the search for "gra",
  the response to "gra" arrives first, and after both responses the list holds the notes
  of the first search.
\<close>

theorem C1_counterexample:
  "(let now = ''2026-01-05T10:00:00.000Z'';
        recA = textRecord (JNum 1) (JStr ''Graphs'') JNull (JStr ''Notes on graphs'');
        recB = textRecord (JNum 2) (JStr ''Graph colouring'') JNull (JStr ''Chromatic numbers'');
        (sA, reqA) = handleSearch_issue ''gr'' initialHub;
        (sB, reqB) = handleSearch_issue ''gra'' sA;
        afterB = handleSearch_settle now reqB (searchResources (Inr [recB])) sB;
        afterA = handleSearch_settle now reqA (searchResources (Inr [recA])) afterB
    in reqA = SearchResources ''gr'' \<and> reqB = SearchResources ''gra''
     \<and> map note_title (notes afterB) = [JStr ''Graph colouring'']
     \<and> map note_title (notes afterA) = [JStr ''Graphs'']
     \<and> Inr (notes afterA) = convertAll now [recA]
     \<and> Inr (notes afterA) \<noteq> convertAll now [recB])"
  by (simp add: handleSearch_issue_def handleSearch_settle_def searchResources_def
      textRecord_def convertBackendNoteToFrontend_def noteTypeOf_def fileUrlOf_def js_or_def
      falsy_def Let_def trim_def isWhiteSpace_def initialHub_def intToString_def digits.simps
      digitChar_def)

theorem C1_witness:
  "notes (handleSearch_settle ''2026-01-05T10:00:01.000Z'' GetNotes
            (Inr [textRecord (JStr ''a1'') (JStr ''All'') JNull JUndefined])
            (handleSearch_settle ''2026-01-05T10:00:00.000Z'' (SearchResources ''tree'')
               (Inr [])
               (initialHub\<lparr>searchQuery := ''tree'', isSearching := True\<rparr>)))
   = [\<lparr> note_id = ''a1'', note_title = JStr ''All'', note_type = Other,
         note_url = JStr ''#'', note_tags = [],
         note_uploadDate = JStr ''2026-01-05T10:00:01.000Z'',
         note_rating = 0, note_size = [], note_uploader_name = ''You'',
         note_uploader_avatarUrl = [], note_content = JStr [], note_summary = JStr [] \<rparr>]"
proof -
  let ?ns = "[\<lparr> note_id = ''a1'', note_title = JStr ''All'', note_type = Other,
         note_url = JStr ''#'', note_tags = [],
         note_uploadDate = JStr ''2026-01-05T10:00:01.000Z'',
         note_rating = 0, note_size = [], note_uploader_name = ''You'',
         note_uploader_avatarUrl = [], note_content = JStr [], note_summary = JStr [] \<rparr>]"
  have a: "handleSearch_issue ''t'' initialHub = (initialHub\<lparr>searchQuery := ''t''\<rparr>, GetNotes)"
    by (simp add: handleSearch_issue_def trim_def isWhiteSpace_def Let_def)
  have b: "handleSearch_issue ''tree'' (initialHub\<lparr>searchQuery := ''t''\<rparr>) =
        (initialHub\<lparr>searchQuery := ''tree'', isSearching := True\<rparr>, SearchResources ''tree'')"
    by (simp add: handleSearch_issue_def trim_def isWhiteSpace_def Let_def)
  have c: "convertAll ''2026-01-05T10:00:01.000Z''
             [textRecord (JStr ''a1'') (JStr ''All'') JNull JUndefined] = Inr ?ns"
    by (simp add: textRecord_def convertBackendNoteToFrontend_def noteTypeOf_def fileUrlOf_def
        js_or_def falsy_def Let_def)
  have d: "convertAll ''2026-01-05T10:00:00.000Z'' [] = Inr []"
    by simp
  from C1_last_arrival_wins [OF a b c d] show ?thesis by simp
qed

text \<open>
  Claim C9 fails on the code in the list-all branch: when \<^verbatim>\<open>getNotes()\<close> fails
  there, the continuation leaves the state exactly as it was, so no toast is raised (the
  \<^verbatim>\<open>catch\<close> block only writes to the console). In the evaluated case the one-letter
  query "a" meets a network error. On the same failure the filtered search leaves the
  list unchanged and raises "Search failed", and the initial fetch raises "Failed to
  load notes".
\<close>

theorem C9_list_all_failure_is_silent:
  "handleSearch_settle now GetNotes (getNotes (Inl e)) s = s
   \<and> (let failure = \<lparr> ax_message = ''Network Error'', ax_response = None, ax_request = True \<rparr>;
        (s1, req) = handleSearch_issue ''a'' initialHub;
        s2 = handleSearch_settle ''2026-01-05T10:00:00.000Z'' req (getNotes (Inl failure)) s1;
        (s3, req') = handleSearch_issue ''ab'' initialHub;
        s4 = handleSearch_settle ''2026-01-05T10:00:00.000Z'' req'
               (searchResources (Inl failure)) s3
    in req = GetNotes \<and> s2 = s1 \<and> toasts s2 = []
     \<and> req' = SearchResources ''ab'' \<and> toasts s4 = [ToastError ''Search failed'']
     \<and> notes s4 = notes s3
     \<and> toasts (fetchNotes_settle ''2026-01-05T10:00:00.000Z'' (getNotes (Inl failure))
                 initialHub)
         = [ToastError ''Failed to load notes''])"
  by (simp add: handleSearch_issue_def handleSearch_settle_def getNotes_def searchResources_def
      fetchNotes_settle_def apiError_def toastError_def initialHub_def trim_def isWhiteSpace_def
      Let_def)

section \<open>Overlapping summaries\<close>

lemma rendered_iff:
  "(summaryModalView s \<noteq> NotRendered) = (isSummaryModalOpen s \<and> selectedNote s \<noteq> None)"
  by (auto simp: summaryModalView_def split: option.splits)

text \<open>The handlers of the list and of the upload form leave the summary state as it
  is.\<close>

lemma fetchNotes_settle_frame:
  "selectedNote (fetchNotes_settle now out s) = selectedNote s \<and>
   isSummaryModalOpen (fetchNotes_settle now out s) = isSummaryModalOpen s \<and>
   summary (fetchNotes_settle now out s) = summary s \<and>
   isGeneratingSummary (fetchNotes_settle now out s) = isGeneratingSummary s \<and>
   summaryError (fetchNotes_settle now out s) = summaryError s"
  by (simp add: fetchNotes_settle_def toastError_def split: sum.splits)

lemma handleSearch_issue_frame:
  "selectedNote (fst (handleSearch_issue q s)) = selectedNote s \<and>
   isSummaryModalOpen (fst (handleSearch_issue q s)) = isSummaryModalOpen s \<and>
   summary (fst (handleSearch_issue q s)) = summary s \<and>
   isGeneratingSummary (fst (handleSearch_issue q s)) = isGeneratingSummary s \<and>
   summaryError (fst (handleSearch_issue q s)) = summaryError s"
  by (simp add: handleSearch_issue_def Let_def)

lemma handleSearch_settle_frame:
  "selectedNote (handleSearch_settle now req out s) = selectedNote s \<and>
   isSummaryModalOpen (handleSearch_settle now req out s) = isSummaryModalOpen s \<and>
   summary (handleSearch_settle now req out s) = summary s \<and>
   isGeneratingSummary (handleSearch_settle now req out s) = isGeneratingSummary s \<and>
   summaryError (handleSearch_settle now req out s) = summaryError s"
  by (simp add: handleSearch_settle_def toastError_def Let_def
      split: sum.splits searchRequest.splits)

lemma handleSubmit_start_frame:
  "selectedNote (fst (handleSubmit_start s)) = selectedNote s \<and>
   isSummaryModalOpen (fst (handleSubmit_start s)) = isSummaryModalOpen s \<and>
   summary (fst (handleSubmit_start s)) = summary s \<and>
   isGeneratingSummary (fst (handleSubmit_start s)) = isGeneratingSummary s \<and>
   summaryError (fst (handleSubmit_start s)) = summaryError s"
  by (simp add: handleSubmit_start_def toastError_def Let_def)

lemma handleSubmit_uploaded_frame:
  "selectedNote (fst (handleSubmit_uploaded now out s)) = selectedNote s \<and>
   isSummaryModalOpen (fst (handleSubmit_uploaded now out s)) = isSummaryModalOpen s \<and>
   summary (fst (handleSubmit_uploaded now out s)) = summary s \<and>
   isGeneratingSummary (fst (handleSubmit_uploaded now out s)) = isGeneratingSummary s \<and>
   summaryError (fst (handleSubmit_uploaded now out s)) = summaryError s"
  by (simp add: handleSubmit_uploaded_def toastError_def split: sum.splits)

lemma handleSubmit_refreshed_frame:
  "selectedNote (handleSubmit_refreshed now r out s) = selectedNote s \<and>
   isSummaryModalOpen (handleSubmit_refreshed now r out s) = isSummaryModalOpen s \<and>
   summary (handleSubmit_refreshed now r out s) = summary s \<and>
   isGeneratingSummary (handleSubmit_refreshed now r out s) = isGeneratingSummary s \<and>
   summaryError (handleSubmit_refreshed now r out s) = summaryError s"
  by (simp add: handleSubmit_refreshed_def toastSuccess_def Let_def split: sum.splits)

lemmas frames =
  fetchNotes_settle_frame handleSearch_issue_frame handleSearch_settle_frame
  handleSubmit_start_frame handleSubmit_uploaded_frame handleSubmit_refreshed_frame

lemmas summary_defs =
  aiSummaryClick_def handleGenerateSummary_start_def handleGenerateSummary_settle_def
  closeSummaryClick_def closeSummaryModal_def viewContentClick_def closeDetailClick_def

lemma step_oneRequest:
  assumes "oneRequest u" and "step e u = Some u'"
  shows "oneRequest u'"
proof (cases e)
  case (AiSummaryClicked n)
  with assms show ?thesis
    by (auto simp: oneRequest_def summary_defs split: if_splits)
next
  case (SummaryAnswered n out)
  with assms show ?thesis
    by (cases "ui_pending u")
       (auto simp: oneRequest_def summary_defs split: if_splits sum.splits)
qed (insert assms, auto simp: oneRequest_def onHub_def frames summary_defs
      split: if_splits option.splits)

lemma run_oneRequest:
  "oneRequest u \<Longrightarrow> run es u = Some u' \<Longrightarrow> oneRequest u'"
proof (induction es arbitrary: u)
  case Nil
  then show ?case by simp
next
  case (Cons e es)
  then show ?case
    by (auto split: option.splits dest: step_oneRequest)
qed

lemma step_sessionInv:
  assumes "sessionInv u" and "step e u = Some u'"
    and "\<not> (underSummaryModal e \<and> summaryModalView (ui_hub u) \<noteq> NotRendered)"
  shows "sessionInv u'"
proof -
  from assms(1) have one: "oneRequest u" by (simp add: sessionInv_def)
  from one assms(2) have one': "oneRequest u'" by (rule step_oneRequest)
  show ?thesis
  proof (cases e)
    case (AiSummaryClicked n)
    with assms one' show ?thesis
      by (auto simp: sessionInv_def oneRequest_def summary_defs rendered_iff split: if_splits)
  next
    case (SummaryAnswered n out)
    with assms one' show ?thesis
      by (cases "ui_pending u")
         (auto simp: sessionInv_def oneRequest_def handleGenerateSummary_settle_def
            str_or_def summarizeText_def split: if_splits sum.splits)
  next
    case SummaryModalClosed
    with assms one' show ?thesis
      by (auto simp: sessionInv_def closeSummaryClick_def closeSummaryModal_def
          split: if_splits)
  next
    case (ViewContentClicked n)
    with assms one' show ?thesis
      by (auto simp: sessionInv_def viewContentClick_def rendered_iff split: if_splits)
  next
    case DetailClosed
    with assms one' show ?thesis
      by (auto simp: sessionInv_def closeDetailClick_def rendered_iff
          split: if_splits option.splits)
  qed (insert assms one', auto simp: sessionInv_def onHub_def frames)
qed

lemma pointerRun_sessionInv:
  "sessionInv u \<Longrightarrow> pointerRun es u = Some u' \<Longrightarrow> sessionInv u'"
proof (induction es arbitrary: u)
  case Nil
  then show ?case by simp
next
  case (Cons e es)
  from Cons.prems(2)
  have ok: "\<not> (underSummaryModal e \<and> summaryModalView (ui_hub u) \<noteq> NotRendered)"
    by (auto split: if_splits)
  with Cons.prems(2) obtain u1 where s: "step e u = Some u1" and r: "pointerRun es u1 = Some u'"
    by (auto split: if_splits option.splits)
  from Cons.prems(1) s ok have "sessionInv u1" by (rule step_sessionInv)
  then show ?case using r by (rule Cons.IH)
qed

lemma sessionInv_shown: "sessionInv u \<Longrightarrow> shownForSelected u"
  by (auto simp: sessionInv_def shownForSelected_def summaryModalView_def
      split: if_splits option.splits)

lemma initial_sessionInv: "sessionInv initialUi"
  by (simp add: sessionInv_def oneRequest_def initialUi_def initialHub_def)


text \<open>
  Claim C2, as amended. In every state the component reaches, whatever is activated, a
  summary request is in flight exactly while \<^verbatim>\<open>isGeneratingSummary\<close> is set, at most
  one is in flight, and while it is the "AI Summary" button of every card does nothing:
  a summary cannot be opened for B before the response for A has arrived. The handlers
  compare no identities; the modal shows the summary state under the title of
  \<^verbatim>\<open>selectedNote\<close>. As long as no control lying under the summary modal (the buttons
  of the cards, the close button of the detail modal) is activated while the modal is
  rendered, a summary text or error on display was requested for the selected note.
\<close>

theorem C2_summary_shown_for_selected_note:
  "(run es initialUi = Some u \<longrightarrow>
      isGeneratingSummary (ui_hub u) = (ui_pending u \<noteq> []) \<and> length (ui_pending u) \<le> 1 \<and>
      (ui_pending u \<noteq> [] \<longrightarrow> step (AiSummaryClicked noteB) u = None))
   \<and> (pointerRun es initialUi = Some u \<longrightarrow> shownForSelected u)"
proof -
  have a: "oneRequest u" if "run es initialUi = Some u"
    using initial_sessionInv that by (auto simp: sessionInv_def dest: run_oneRequest)
  have b: "step (AiSummaryClicked noteB) u = None" if "oneRequest u" "ui_pending u \<noteq> []"
    using that by (simp add: oneRequest_def aiSummaryClick_def)
  have c: "shownForSelected u" if "pointerRun es initialUi = Some u"
    using initial_sessionInv that by (blast intro: sessionInv_shown pointerRun_sessionInv)
  from a b c show ?thesis by (auto simp: oneRequest_def)
qed

lemmas run_defs =
  initialUi_def initialHub_def onHub_def fetchNotes_settle_def getNotes_def
  textRecord_def textNote_def convertBackendNoteToFrontend_def noteTypeOf_def fileUrlOf_def
  js_or_def falsy_def Let_def aiSummaryClick_def cardRendered_def
  handleGenerateSummary_start_def handleGenerateSummary_settle_def summarizeText_def
  generateSummary_def viewContentClick_def opensInNewTab_def summaryModalView_def
  closeSummaryClick_def closeSummaryModal_def

text \<open>
  Claim C2 as stated fails. The "AI Summary" button of "Sorting" is activated; while the
  request is pending and the modal is rendered, the "View Content" button of "Hashing",
  which is rendered, enabled and no handler guards, is activated (from the keyboard: the
  modal does not take the buttons under it out of the focus order); then the response
  for "Sorting" arrives. The modal shows the summary of "Sorting" under the title
  "Hashing", the selected note.
\<close>

theorem C2_counterexample:
  "(case run (summaryTrace @
               [ViewContentClicked (textNote ''2'' ''Hashing'' ''Hash tables map keys to buckets.''),
                SummaryAnswered (textNote ''1'' ''Sorting'' ''Quicksort partitions the array.'')
                  (Inr ''Quicksort in one line.'')])
          initialUi of
      None \<Rightarrow> False
    | Some u \<Rightarrow>
        summaryModalView (ui_hub u) =
          Rendered (JStr ''Hashing'') (SummaryText ''Quicksort in one line.'')
        \<and> selectedNote (ui_hub u) =
            Some (textNote ''2'' ''Hashing'' ''Hash tables map keys to buckets.'')
        \<and> ui_shownFor u = Some (textNote ''1'' ''Sorting'' ''Quicksort partitions the array.'')
        \<and> \<not> shownForSelected u)"
  by (simp add: summaryTrace_def run_defs shownForSelected_def)

theorem C2_witness:
  "(case pointerRun (summaryTrace @
               [SummaryAnswered (textNote ''1'' ''Sorting'' ''Quicksort partitions the array.'')
                  (Inr ''Quicksort in one line.'')])
          initialUi of
      None \<Rightarrow> False
    | Some u \<Rightarrow>
        summaryModalView (ui_hub u) =
          Rendered (JStr ''Sorting'') (SummaryText ''Quicksort in one line.'')
        \<and> shownForSelected u)
   \<and> (case run summaryTrace initialUi of
        None \<Rightarrow> False
      | Some u \<Rightarrow>
          ui_pending u = [textNote ''1'' ''Sorting'' ''Quicksort partitions the array.'']
          \<and> isGeneratingSummary (ui_hub u)
          \<and> step (AiSummaryClicked
                     (textNote ''2'' ''Hashing'' ''Hash tables map keys to buckets.'')) u = None)"
proof -
  let ?A = "textNote ''1'' ''Sorting'' ''Quicksort partitions the array.''"
  let ?B = "textNote ''2'' ''Hashing'' ''Hash tables map keys to buckets.''"
  let ?es = "summaryTrace @ [SummaryAnswered ?A (Inr ''Quicksort in one line.'')]"
  obtain u where u: "pointerRun ?es initialUi = Some u"
    and v: "summaryModalView (ui_hub u) =
              Rendered (JStr ''Sorting'') (SummaryText ''Quicksort in one line.'')"
    by (simp add: summaryTrace_def run_defs)
  from C2_summary_shown_for_selected_note [of ?es u ?B] u
  have 1: "shownForSelected u" by blast
  obtain w where w: "run summaryTrace initialUi = Some w"
    and p: "ui_pending w = [?A]"
    by (simp add: summaryTrace_def run_defs)
  from C2_summary_shown_for_selected_note [of summaryTrace w ?B] w p
  have 2: "isGeneratingSummary (ui_hub w) \<and> step (AiSummaryClicked ?B) w = None"
    by simp
  from u v 1 w p 2 show ?thesis by simp
qed


text \<open>
  Claim C7 fails on the code. Whatever failure the summary request ends with,
  \<^verbatim>\<open>summarizeText\<close> catches the error of \<^verbatim>\<open>generateSummary\<close> and throws its own
  fixed message, so the session ends failed with that fixed message. In the evaluated
  case the server answers with status 429 and the detail "Rate limit exceeded":
  \<^verbatim>\<open>generateSummary\<close> throws an error carrying the detail, and the modal shows the
  fixed message instead.
\<close>

theorem C7_server_detail_is_replaced:
  "summaryError (handleGenerateSummary_settle note (summarizeText (generateSummary (Inl e))) s)
     = Some ''Failed to get summary. Please try again.''
   \<and> isGeneratingSummary
       (handleGenerateSummary_settle note (summarizeText (generateSummary (Inl e))) s) = False
   \<and> (let noteA = textNote ''1'' ''Sorting'' ''Quicksort partitions the array.'';
        failure = \<lparr> ax_message = ''Request failed with status code 429'',
                    ax_response = Some \<lparr> data_detail = JStr ''Rate limit exceeded'',
                                          data_message = JUndefined \<rparr>,
                    ax_request = True \<rparr>;
        sA = fst (handleGenerateSummary_start noteA initialHub);
        failed = handleGenerateSummary_settle noteA
                   (summarizeText (generateSummary (Inl failure))) sA
    in generateSummary (Inl failure) = Inl (Error ''Rate limit exceeded'')
     \<and> summaryError failed = Some ''Failed to get summary. Please try again.''
     \<and> isGeneratingSummary failed = False
     \<and> summaryModalView failed =
         Rendered (JStr ''Sorting'') (ErrorText ''Failed to get summary. Please try again.''))"
  by (simp add: textNote_def handleGenerateSummary_start_def handleGenerateSummary_settle_def
      summaryModalView_def summarizeText_def generateSummary_def apiError_def js_or_def
      str_or_def initialHub_def Let_def)

section \<open>Submitting a draft\<close>

text \<open>
  Claim C8, as amended. For a LINK draft, \<^verbatim>\<open>handleSubmit\<close> tests the content after
  trimming white space. When the trimmed content does not start with \<^verbatim>\<open>http\<close> (an
  empty content included) no upload request is issued and one error toast is raised:
  "Please enter a title" when the trimmed title is empty (the title is checked first),
  "Please enter a valid URL" otherwise. When the trimmed content starts with
  \<^verbatim>\<open>http\<close> and the trimmed title is not empty, the upload request is issued.
\<close>

theorem C8_link_validation:
  assumes "draft_type (newNote s) = LINK"
  shows "(\<not> startsWith (trim (draft_content (newNote s))) ''http'' \<longrightarrow>
            handleSubmit_start s =
              (toastError (if trim (draft_title (newNote s)) = [] then ''Please enter a title''
                           else ''Please enter a valid URL'') s, None))
       \<and> (startsWith (trim (draft_content (newNote s))) ''http'' \<and>
          trim (draft_title (newNote s)) \<noteq> [] \<longrightarrow>
            handleSubmit_start s =
              (s\<lparr>isSubmitting := True\<rparr>, Some (buildFormData (newNote s))))"
  using assms
  by (auto simp: handleSubmit_start_def Let_def trim_def startsWith_def)

text \<open>
  Claim C8 as stated fails twice. The content " https://example.com/a" does not start
  with \<^verbatim>\<open>http\<close> (it starts with a space), and the upload request is issued, with
  the trimmed content. And a LINK draft with the content "not-a-url" and an empty title
  is refused for its title, not for its URL.
\<close>

theorem C8_counterexample:
  "\<not> startsWith '' https://example.com/a'' ''http''
   \<and> handleSubmit_start (linkDraft ''Course page'' '' https://example.com/a'') =
       ((linkDraft ''Course page'' '' https://example.com/a'')\<lparr>isSubmitting := True\<rparr>,
        Some [(''title'', Inl ''Course page''), (''type'', Inl ''LINK''), (''subject'', Inl []),
              (''is_public'', Inl ''false''), (''content'', Inl ''https://example.com/a'')])
   \<and> handleSubmit_start (linkDraft [] ''not-a-url'') =
       (toastError ''Please enter a title'' (linkDraft [] ''not-a-url''), None)"
  by (simp add: handleSubmit_start_def linkDraft_def buildFormData_def emptyDraft_def
      initialHub_def toastError_def draftTypeName_def str_or_def trim_def isWhiteSpace_def
      startsWith_def Let_def)

theorem C8_witness:
  "handleSubmit_start (linkDraft ''Course page'' ''not-a-url'') =
     (toastError ''Please enter a valid URL'' (linkDraft ''Course page'' ''not-a-url''), None)
   \<and> handleSubmit_start (linkDraft ''Course page'' []) =
     (toastError ''Please enter a valid URL'' (linkDraft ''Course page'' []), None)
   \<and> snd (handleSubmit_start (linkDraft ''Course page'' ''http://example.com'')) =
     Some (buildFormData (newNote (linkDraft ''Course page'' ''http://example.com'')))"
proof -
  have k: "\<And>t c. draft_type (newNote (linkDraft t c)) = LINK"
    by (simp add: linkDraft_def)
  have a: "\<not> startsWith (trim (draft_content (newNote (linkDraft ''Course page'' ''not-a-url''))))
               ''http''"
    by (simp add: linkDraft_def trim_def isWhiteSpace_def startsWith_def)
  have a': "trim (draft_title (newNote (linkDraft ''Course page'' ''not-a-url''))) \<noteq> []"
    by (simp add: linkDraft_def trim_def isWhiteSpace_def)
  have b: "\<not> startsWith (trim (draft_content (newNote (linkDraft ''Course page'' [])))) ''http''"
    by (simp add: linkDraft_def trim_def isWhiteSpace_def startsWith_def)
  have b': "trim (draft_title (newNote (linkDraft ''Course page'' []))) \<noteq> []"
    by (simp add: linkDraft_def trim_def isWhiteSpace_def)
  have c: "startsWith (trim (draft_content
                (newNote (linkDraft ''Course page'' ''http://example.com'')))) ''http''
      \<and> trim (draft_title (newNote (linkDraft ''Course page'' ''http://example.com''))) \<noteq> []"
    by (simp add: linkDraft_def trim_def isWhiteSpace_def startsWith_def)
  from C8_link_validation [OF k, of "''Course page''" "''not-a-url''"] a a'
  have 1: "handleSubmit_start (linkDraft ''Course page'' ''not-a-url'') =
     (toastError ''Please enter a valid URL'' (linkDraft ''Course page'' ''not-a-url''), None)"
    by simp
  from C8_link_validation [OF k, of "''Course page''" "[]"] b b'
  have 2: "handleSubmit_start (linkDraft ''Course page'' []) =
     (toastError ''Please enter a valid URL'' (linkDraft ''Course page'' []), None)"
    by simp
  from C8_link_validation [OF k, of "''Course page''" "''http://example.com''"] c
  have 3: "snd (handleSubmit_start (linkDraft ''Course page'' ''http://example.com'')) =
     Some (buildFormData (newNote (linkDraft ''Course page'' ''http://example.com'')))"
    by simp
  from 1 2 3 show ?thesis by blast
qed

text \<open>
  Claim C6. When the upload succeeds, the continuation puts a provisional note in front
  of the list, and the re-fetch is issued from the state that already holds it. The
  provisional note is built from the response: its id, title, tags, size and content are
  the response's, its type follows the response's type (or its URL, for a file), its URL
  is the response's or \<^verbatim>\<open>'#'\<close>, its date the response's or the current time. When
  the re-fetch succeeds and its records are converted, the list becomes exactly the
  converted records; when the re-fetch fails, the list is still the provisional note
  followed by the earlier notes, and the success toast is raised all the same.
\<close>

theorem C6_optimistic_insert_then_refetch:
  "(let (s1, refetch) = handleSubmit_uploaded now (uploadFile (Inr response)) s;
        provisional =
          \<lparr> note_id = resp_id response,
            note_title = JStr (resp_title response),
            note_type =
              (if resp_type response = ''text'' then Other
               else if resp_type response = ''link'' then Url
               else getFileTypeFromUrl (resp_url response)),
            note_url = JStr (if resp_url response = [] then ''#'' else resp_url response),
            note_tags = resp_tags response,
            note_uploadDate =
              JStr (if resp_uploadDate response = [] then now else resp_uploadDate response),
            note_rating = 0,
            note_size = resp_size response,
            note_uploader_name = ''You'',
            note_uploader_avatarUrl = [],
            note_content = JStr (resp_content response),
            note_summary = JStr (resp_content response) \<rparr>
    in notes s1 = provisional # notes s
     \<and> refetch = Some response
     \<and> (\<forall>ns. convertAll now' rs = Inr ns \<longrightarrow>
           notes (handleSubmit_refreshed now' response (getNotes (Inr rs)) s1) = ns)
     \<and> notes (handleSubmit_refreshed now' response (getNotes (Inl failure)) s1) =
         provisional # notes s
     \<and> toasts (handleSubmit_refreshed now' response (getNotes (Inl failure)) s1) =
         toasts s @ [ToastSuccess (str_or (resp_message response) ''Note saved successfully!'')])"
  by (simp add: handleSubmit_uploaded_def handleSubmit_refreshed_def getNotes_def
      uploadFile_def uploadedNote_def str_or_def toastSuccess_def Let_def)

theorem C6_witness:
  "(let up = \<lparr> note_id = ''15'', note_title = JStr ''Course page'', note_type = Url,
               note_url = JStr ''https://example.com/a'', note_tags = [''AI''],
               note_uploadDate = JStr ''2026-01-05T10:00:00.000Z'', note_rating = 0,
               note_size = [], note_uploader_name = ''You'', note_uploader_avatarUrl = [],
               note_content = JStr [], note_summary = JStr [] \<rparr>;
        s1 = fst (handleSubmit_uploaded ''2026-01-05T10:00:00.000Z''
                    (uploadFile (Inr linkResponse)) initialHub)
    in notes s1 = [up]
     \<and> map note_id (notes (handleSubmit_refreshed ''2026-01-05T10:00:02.000Z'' linkResponse
          (getNotes (Inr [textRecord (JNum 15) (JStr ''Course page'')
                            (JStr ''https://example.com/a'') JUndefined,
                          textRecord (JNum 7) (JStr ''Notes'') JNull
                            (JStr ''Key ideas on recursion'')])) s1))
         = [''15'', ''7'']
     \<and> notes (handleSubmit_refreshed ''2026-01-05T10:00:02.000Z'' linkResponse
          (getNotes (Inl \<lparr> ax_message = ''Network Error'', ax_response = None,
                            ax_request = True \<rparr>)) s1)
         = [up])"
proof -
  let ?rs = "[textRecord (JNum 15) (JStr ''Course page'') (JStr ''https://example.com/a'')
                JUndefined,
              textRecord (JNum 7) (JStr ''Notes'') JNull (JStr ''Key ideas on recursion'')]"
  obtain ns where ns: "convertAll ''2026-01-05T10:00:02.000Z'' ?rs = Inr ns"
    and ids: "map note_id ns = [''15'', ''7'']"
    by (simp add: textRecord_def convertBackendNoteToFrontend_def noteTypeOf_def fileUrlOf_def
        js_or_def falsy_def Let_def startsWith_def matchImageExt_def endsWith_def lowerChar_def
        intToString_def digits.simps digitChar_def)
  from C6_optimistic_insert_then_refetch [of "''2026-01-05T10:00:00.000Z''" linkResponse
      initialHub "''2026-01-05T10:00:02.000Z''" ?rs
      "\<lparr> ax_message = ''Network Error'', ax_response = None, ax_request = True \<rparr>"]
    ns ids
  show ?thesis
    by (simp add: Let_def split_beta linkResponse_def initialHub_def)
qed

end
